theory Spec2Isabelle
  imports Main
begin

section \<open>The Odoo proxy client: data model\<close>

text \<open>
  A shallow embedding of \<^verbatim>\<open>src/odxproxy-client.ts\<close>: the class
  \<^verbatim>\<open>OdooProxyApiClient\<close>, its constructor, the factory
  \<^verbatim>\<open>createOdooProxyClient\<close> and the method \<^verbatim>\<open>forwardToOdoo\<close>.
  A string is a list of code units; \<^verbatim>\<open>length\<close> and \<^verbatim>\<open>substring\<close>
  count list elements.
\<close>

subsection \<open>Values produced by the platform\<close>

text \<open>
  The value \<^verbatim>\<open>JSON.parse\<close> returns. The number carrier \<open>'n\<close> is left open: the
  client never computes with a number of the body. An object is an association list read
  with \<^const>\<open>map_of\<close>.
\<close>

datatype 'n json =
    JNull
  | JBool bool
  | JNumber 'n
  | JString string
  | JArray "'n json list"
  | JObject "(string \<times> 'n json) list"

text \<open>
  What a \<^verbatim>\<open>catch (e: any)\<close> clause receives. Both handlers of the method read
  \<^verbatim>\<open>e.message ?? fallback\<close> only, so a thrown value is one of: \<^verbatim>\<open>null\<close> or
  \<^verbatim>\<open>undefined\<close> (\<open>Nullish\<close>: reading a property of it throws a TypeError); or any
  other value, with its \<^verbatim>\<open>message\<close> property either \<^verbatim>\<open>null\<close>/\<^verbatim>\<open>undefined\<close>
  (\<open>Thrown None\<close>) or rendered by the template literal as a string (\<open>Thrown (Some m)\<close>).
\<close>

datatype thrown = Nullish | Thrown "string option"

text \<open>
  A \<^verbatim>\<open>Response\<close>: the two properties the method reads, and the outcome of awaiting
  \<^verbatim>\<open>response.text()\<close>, which every path of the method awaits at most once.
\<close>

record response =
  status :: nat
  statusText :: string
  text_outcome :: "thrown + string"

text \<open>The arguments of one call of the transport: \<^verbatim>\<open>fetchFn(url, {method, headers, body})\<close>.\<close>

record fetch_call =
  call_url :: string
  call_method :: string
  call_headers :: "(string \<times> string) list"
  call_body :: string

type_synonym fetch_fn = "fetch_call \<Rightarrow> thrown + response"

text \<open>
  The two platform functions the method calls. \<^verbatim>\<open>JSON.stringify\<close> returns the
  serialisation or throws (a cyclic structure, a BigInt or a throwing \<^verbatim>\<open>toJSON\<close> under
  the \<^verbatim>\<open>any\<close>-typed fields \<^verbatim>\<open>keyword\<close> and \<^verbatim>\<open>params\<close>); the request type
  \<open>'req\<close> is left open, since the method reads no field of it. \<^verbatim>\<open>JSON.parse\<close>
  returns the parsed value or throws a SyntaxError, here the error's message.
\<close>

record ('req, 'n) platform =
  JSON_stringify :: "'req \<Rightarrow> thrown + string"
  JSON_parse :: "string \<Rightarrow> string + 'n json"

subsection \<open>Errors\<close>

text \<open>
  The two error classes of the source, with the fields their constructors set, and the
  TypeError of the platform for a property read on \<^verbatim>\<open>null\<close> or \<^verbatim>\<open>undefined\<close>.
  The arguments of \<open>OdooProxyApiHttpError\<close> are \<^verbatim>\<open>message\<close>, \<^verbatim>\<open>status\<close>,
  \<^verbatim>\<open>statusText\<close> and \<^verbatim>\<open>response\<close>; \<open>None\<close> is \<^verbatim>\<open>undefined\<close>.
\<close>

datatype failure =
    OdooProxyApiHttpError string "nat option" "string option" "response option"
  | OdooProxyApiFormatError string
  | TypeError

text \<open>
  \<^verbatim>\<open>constructor(message, response?)\<close>: \<^verbatim>\<open>this.status = response?.status\<close>,
  \<^verbatim>\<open>this.statusText = response?.statusText\<close>, \<^verbatim>\<open>this.response = response\<close>.
\<close>

definition new_OdooProxyApiHttpError :: "string \<Rightarrow> response option \<Rightarrow> failure" where
  "new_OdooProxyApiHttpError msg r =
     OdooProxyApiHttpError msg (map_option status r) (map_option statusText r) r"

fun is_http_error :: "failure + 'a \<Rightarrow> bool" where
  "is_http_error (Inl (OdooProxyApiHttpError m s st r)) = True"
| "is_http_error _ = False"

fun is_format_error :: "failure + 'a \<Rightarrow> bool" where
  "is_format_error (Inl (OdooProxyApiFormatError m)) = True"
| "is_format_error _ = False"

subsection \<open>Configuration and client\<close>

text \<open>
  \<^verbatim>\<open>OdooApiClientConfig\<close>. A field a JavaScript caller left out (\<^verbatim>\<open>undefined\<close>)
  is \<open>None\<close>.
\<close>

record OdooApiClientConfig =
  cfg_baseUrl :: "string option"
  cfg_apiKey :: "string option"
  cfg_fetch :: "fetch_fn option"

text \<open>The three \<^verbatim>\<open>private readonly\<close> fields of \<^verbatim>\<open>OdooProxyApiClient\<close>.\<close>

record OdooProxyApiClient =
  baseUrl :: string
  apiKey :: string
  fetchFn :: fetch_fn

section \<open>Construction\<close>

text \<open>\<^verbatim>\<open>!s\<close> for a string-or-undefined \<open>s\<close>: true for \<^verbatim>\<open>undefined\<close> and for \<^verbatim>\<open>""\<close>.\<close>

definition falsy :: "string option \<Rightarrow> bool" where
  "falsy s = (case s of None \<Rightarrow> True | Some v \<Rightarrow> v = [])"

text \<open>
  \<^verbatim>\<open>s.replace(/\/$/, '')\<close>: without the \<^verbatim>\<open>m\<close> flag, \<^verbatim>\<open>$\<close> matches at the end
  of the input only, so the one match, if any, is a final slash.
\<close>

definition replace_trailing_slash :: "string \<Rightarrow> string" where
  "replace_trailing_slash s =
     (if s \<noteq> [] \<and> last s = CHR ''/'' then butlast s else s)"

text \<open>
  The constructor, given \<^verbatim>\<open>globalThis.fetch\<close> (\<open>None\<close> where the environment has
  none). \<open>Inl\<close> carries the message of the \<^verbatim>\<open>Error\<close> thrown.
\<close>

definition new_OdooProxyApiClient ::
  "fetch_fn option \<Rightarrow> OdooApiClientConfig \<Rightarrow> string + OdooProxyApiClient" where
  "new_OdooProxyApiClient globalThis_fetch config =
     (if falsy (cfg_baseUrl config) \<or> falsy (cfg_apiKey config)
      then Inl ''OdooProxyApiClient requires baseUrl and apiKey in configuration.''
      else
        (case (cfg_baseUrl config, cfg_apiKey config,
               (case cfg_fetch config of Some f \<Rightarrow> Some f | None \<Rightarrow> globalThis_fetch)) of
           (Some b, Some k, Some f) \<Rightarrow>
             Inr \<lparr> baseUrl = replace_trailing_slash b, apiKey = k, fetchFn = f \<rparr>
         | _ \<Rightarrow>
             \<comment> \<open>neither string is falsy here: what is missing is the transport\<close>
             Inl (''Fetch API is not available. Please provide a polyfill '' @
                  ''or ensure you are in a supported environment.'')))"

definition createOdooProxyClient ::
  "fetch_fn option \<Rightarrow> OdooApiClientConfig \<Rightarrow> string + OdooProxyApiClient" where
  "createOdooProxyClient globalThis_fetch config = new_OdooProxyApiClient globalThis_fetch config"

section \<open>The dispatch operation\<close>

text \<open>The template literal's rendering of a status code: its decimal digits.\<close>

fun decimal :: "nat \<Rightarrow> string" where
  "decimal n =
     (if n < 10 then [char_of (48 + n)]
      else decimal (n div 10) @ [char_of (48 + n mod 10)])"

declare decimal.simps [simp del]

definition expectedStatuses :: "nat list" where
  "expectedStatuses = [200, 400, 401, 500, 502, 504]"

text \<open>
  \<^verbatim>\<open>e.message ?? fallback\<close> in a \<^verbatim>\<open>catch (e: any)\<close> handler: on \<^verbatim>\<open>null\<close>
  or \<^verbatim>\<open>undefined\<close> the property read itself throws a TypeError, which leaves the
  handler in place of the error it was building.
\<close>

definition message_or :: "thrown \<Rightarrow> string \<Rightarrow> failure + string" where
  "message_or e fallback =
     (case e of
        Nullish \<Rightarrow> Inl TypeError
      | Thrown m \<Rightarrow> Inr (case m of None \<Rightarrow> fallback | Some s \<Rightarrow> s))"

text \<open>
  The branch for a status outside \<^verbatim>\<open>expectedStatuses\<close>: the message, with the body
  appended when reading it succeeds and it is not empty.
\<close>

definition unexpected_status_text :: "response \<Rightarrow> string" where
  "unexpected_status_text r =
     (let responseBodyText = ''Status: '' @ decimal (status r) @ '' '' @ statusText r
      in case text_outcome r of
           Inl _ \<Rightarrow> responseBodyText
         | Inr t \<Rightarrow>
             if t \<noteq> []
             then responseBodyText @ [CHR 0x0A] @ ''Response Body: '' @ take 200 t @
                    (if length t > 200 then ''...'' else '''')
             else responseBodyText)"

text \<open>
  The \<^verbatim>\<open>try\<close> block that reads and parses the body: \<open>Inl\<close> is what it throws. The
  empty-body \<^verbatim>\<open>OdooProxyApiFormatError\<close> is thrown inside the block, so the handler
  below receives it like any other error, and reads its message.
\<close>

definition read_and_parse :: "('req, 'n) platform \<Rightarrow> response \<Rightarrow> thrown + 'n json" where
  "read_and_parse P r =
     (case text_outcome r of
        Inl e \<Rightarrow> Inl e
      | Inr t \<Rightarrow>
          if t = [] then Inl (Thrown (Some ''Received empty response body''))
          else (case JSON_parse P t of
                  Inl m \<Rightarrow> Inl (Thrown (Some m))
                | Inr v \<Rightarrow> Inr v))"

text \<open>
  \<^verbatim>\<open>typeof\<close>, \<^verbatim>\<open>responseData.jsonrpc\<close> and \<^verbatim>\<open>'id' in responseData\<close> on a parsed
  value. The last two are evaluated on objects and arrays only (the \<^verbatim>\<open>||\<close> chain
  stops before them otherwise); an array has neither property, and no prototype has.
\<close>

fun typeof :: "'n json \<Rightarrow> string" where
  "typeof JNull = ''object''"
| "typeof (JBool b) = ''boolean''"
| "typeof (JNumber n) = ''number''"
| "typeof (JString s) = ''string''"
| "typeof (JArray xs) = ''object''"
| "typeof (JObject kvs) = ''object''"

fun get_jsonrpc :: "'n json \<Rightarrow> 'n json option" where
  "get_jsonrpc (JObject kvs) = map_of kvs ''jsonrpc''"
| "get_jsonrpc _ = None"

fun id_in :: "'n json \<Rightarrow> bool" where
  "id_in (JObject kvs) = (''id'' \<in> fst ` set kvs)"
| "id_in _ = False"

definition invalid_format :: "'n json \<Rightarrow> bool" where
  "invalid_format responseData =
     (typeof responseData \<noteq> ''object'' \<or>
      responseData = JNull \<or>
      get_jsonrpc responseData \<noteq> Some (JString ''2.0'') \<or>
      \<not> id_in responseData)"

text \<open>Everything after the transport has returned a response.\<close>

definition handle_response :: "('req, 'n) platform \<Rightarrow> response \<Rightarrow> failure + 'n json" where
  "handle_response P r =
     (if status r \<notin> set expectedStatuses
      then Inl (new_OdooProxyApiHttpError
                  (''Unexpected HTTP response from Odoo Proxy API. '' @ unexpected_status_text r)
                  (Some r))
      else
        (case read_and_parse P r of
           Inl parseError \<Rightarrow>
             (case message_or parseError ''Unknown parsing error'' of
                Inl err \<Rightarrow> Inl err
              | Inr m \<Rightarrow>
                  Inl (OdooProxyApiFormatError
                         (''Failed to parse JSON response from Odoo Proxy API: '' @ m)))
         | Inr responseData \<Rightarrow>
             if invalid_format responseData
             then Inl (OdooProxyApiFormatError
                         ''Invalid JSON-RPC 2.0 response format received from Odoo Proxy API.'')
             else Inr responseData))"

definition network_error :: "thrown \<Rightarrow> failure" where
  "network_error networkError =
     (case message_or networkError ''Unknown network error'' of
        Inl err \<Rightarrow> err
      | Inr m \<Rightarrow>
          new_OdooProxyApiHttpError (''Network error calling Odoo Proxy API: '' @ m) None)"

definition build_call :: "OdooProxyApiClient \<Rightarrow> string \<Rightarrow> fetch_call" where
  "build_call c body =
     \<lparr> call_url = baseUrl c @ ''/api/odoo'',
       call_method = ''POST'',
       call_headers = [(''Content-Type'', ''application/json''),
                       (''Accept'', ''application/json''),
                       (''apikey'', apiKey c)],
       call_body = body \<rparr>"

text \<open>
  \<^verbatim>\<open>forwardToOdoo\<close>. The result is what the method returns (\<open>Inr\<close>) or throws
  (\<open>Inl\<close>), with the list of the calls of the transport it made. The argument
  \<^verbatim>\<open>JSON.stringify(request)\<close> is evaluated inside the first \<^verbatim>\<open>try\<close> block, before
  the transport is called.
\<close>

definition forwardToOdoo ::
  "('req, 'n) platform \<Rightarrow> OdooProxyApiClient \<Rightarrow> 'req \<Rightarrow> (failure + 'n json) \<times> fetch_call list" where
  "forwardToOdoo P c request =
     (case JSON_stringify P request of
        Inl networkError \<Rightarrow> (Inl (network_error networkError), [])
      | Inr body \<Rightarrow>
          (case fetchFn c (build_call c body) of
             Inl networkError \<Rightarrow> (Inl (network_error networkError), [build_call c body])
           | Inr r \<Rightarrow> (handle_response P r, [build_call c body])))"

text \<open>
  A sequence of dispatches on one client. The method assigns to no field of
  \<^verbatim>\<open>this\<close> (the three fields are \<^verbatim>\<open>readonly\<close>, and the class has no other method),
  so every dispatch of the sequence runs on the client as constructed.
\<close>

definition dispatch_all ::
  "('req, 'n) platform \<Rightarrow> OdooProxyApiClient \<Rightarrow> 'req list \<Rightarrow>
   ((failure + 'n json) \<times> fetch_call list) list" where
  "dispatch_all P c requests = map (forwardToOdoo P c) requests"

section \<open>Concrete inputs\<close>

text \<open>
  Inputs for the examples below. Two requests: one that \<^verbatim>\<open>JSON.stringify\<close>
  serialises, and one carrying a BigInt under \<^verbatim>\<open>params\<close>, on which it throws a
  TypeError. The bodies are those of the specification's test list, and two more.
\<close>

datatype example_request = Plain_request | Bigint_request

definition plain_body :: string where
  \<open>plain_body = ''{"id":"1","action":"search","model_id":"res.partner"}''\<close>

definition result_body :: string where
  \<open>result_body = ''{"jsonrpc":"2.0","id":"x","result":[1,2]}''\<close>

definition result_envelope :: "int json" where
  "result_envelope =
     JObject [(''jsonrpc'', JString ''2.0''), (''id'', JString ''x''),
              (''result'', JArray [JNumber 1, JNumber 2])]"

definition error_body :: string where
  \<open>error_body = ''{"jsonrpc":"2.0","id":"x","error":{"code":-32600,"message":"bad"}}''\<close>

definition error_envelope :: "int json" where
  "error_envelope =
     JObject [(''jsonrpc'', JString ''2.0''), (''id'', JString ''x''),
              (''error'', JObject [(''code'', JNumber (- 32600)), (''message'', JString ''bad'')])]"

definition untagged_body :: string where
  \<open>untagged_body = ''{"result":[1,2],"id":"x"}''\<close>

definition untagged_value :: "int json" where
  "untagged_value =
     JObject [(''result'', JArray [JNumber 1, JNumber 2]), (''id'', JString ''x'')]"

definition loose_body :: string where
  \<open>loose_body = ''{"jsonrpc":"2.0","id":7,"error":{}}''\<close>

definition loose_envelope :: "int json" where
  "loose_envelope =
     JObject [(''jsonrpc'', JString ''2.0''), (''id'', JNumber 7), (''error'', JObject [])]"

definition null_id_body :: string where
  \<open>null_id_body = ''{"jsonrpc":"2.0","id":null}''\<close>

definition null_id_envelope :: "int json" where
  "null_id_envelope = JObject [(''jsonrpc'', JString ''2.0''), (''id'', JNull)]"

definition syntax_error_message :: string where
  "syntax_error_message = ''JSON.parse: unexpected character at line 1 column 1 of the JSON data''"

definition example_platform :: "(example_request, int) platform" where
  "example_platform =
     \<lparr> JSON_stringify = (\<lambda>q. case q of
           Plain_request \<Rightarrow> Inr plain_body
         | Bigint_request \<Rightarrow> Inl (Thrown (Some ''Do not know how to serialize a BigInt''))),
       JSON_parse = (\<lambda>s.
         if s = result_body then Inr result_envelope
         else if s = error_body then Inr error_envelope
         else if s = untagged_body then Inr untagged_value
         else if s = loose_body then Inr loose_envelope
         else if s = null_id_body then Inr null_id_envelope
         else Inl syntax_error_message) \<rparr>"

text \<open>A client whose transport answers every call with the given outcome.\<close>

definition example_client :: "thrown + response \<Rightarrow> OdooProxyApiClient" where
  "example_client outcome =
     \<lparr> baseUrl = ''http://h'', apiKey = ''secret'', fetchFn = (\<lambda>call. outcome) \<rparr>"

definition answer :: "nat \<Rightarrow> string \<Rightarrow> thrown + string \<Rightarrow> response" where
  "answer code reason outcome =
     \<lparr> status = code, statusText = reason, text_outcome = outcome \<rparr>"

text \<open>A transport that fails before any response, as \<^verbatim>\<open>fetch\<close> does without a network.\<close>

definition refusing_transport :: fetch_fn where
  "refusing_transport = (\<lambda>call. Inl (Thrown (Some ''Failed to fetch'')))"

definition example_config :: "string option \<Rightarrow> string option \<Rightarrow> OdooApiClientConfig" where
  "example_config url key =
     \<lparr> cfg_baseUrl = url, cfg_apiKey = key, cfg_fetch = Some refusing_transport \<rparr>"

section \<open>Properties\<close>

subsection \<open>Auxiliary facts\<close>

lemma mem_expectedStatuses:
  "n \<in> set expectedStatuses \<longleftrightarrow> n \<in> {200, 400, 401, 500, 502, 504}"
  by (simp add: expectedStatuses_def)

lemma forwardToOdoo_response:
  "JSON_stringify P request = Inr body \<Longrightarrow> fetchFn c (build_call c body) = Inr r \<Longrightarrow>
   forwardToOdoo P c request = (handle_response P r, [build_call c body])"
  by (simp add: forwardToOdoo_def)

lemma invalid_format_iff:
  "invalid_format v \<longleftrightarrow>
   \<not> (\<exists>kvs. v = JObject kvs \<and> map_of kvs ''jsonrpc'' = Some (JString ''2.0'') \<and>
              ''id'' \<in> fst ` set kvs)"
  by (cases v) (auto simp: invalid_format_def)

lemma handle_response_parsed:
  "status r \<in> set expectedStatuses \<Longrightarrow> text_outcome r = Inr t \<Longrightarrow> t \<noteq> [] \<Longrightarrow>
   JSON_parse P t = Inr v \<Longrightarrow>
   handle_response P r =
     (if invalid_format v
      then Inl (OdooProxyApiFormatError
                  ''Invalid JSON-RPC 2.0 response format received from Odoo Proxy API.'')
      else Inr v)"
  by (simp add: handle_response_def read_and_parse_def)

lemma stringify_plain [simp]: "JSON_stringify example_platform Plain_request = Inr plain_body"
  by (simp add: example_platform_def)

lemma stringify_bigint:
  "JSON_stringify example_platform Bigint_request =
     Inl (Thrown (Some ''Do not know how to serialize a BigInt''))"
  by (simp add: example_platform_def)

lemma fetchFn_example_client [simp]: "fetchFn (example_client outcome) call = outcome"
  by (simp add: example_client_def)

lemma answer_simps [simp]:
  "status (answer code reason outcome) = code"
  "statusText (answer code reason outcome) = reason"
  "text_outcome (answer code reason outcome) = outcome"
  by (simp_all add: answer_def)

lemma parse_result_body: "JSON_parse example_platform result_body = Inr result_envelope"
  by (simp add: example_platform_def)

lemma parse_error_body: "JSON_parse example_platform error_body = Inr error_envelope"
  by (simp add: example_platform_def result_body_def error_body_def)

lemma parse_untagged_body: "JSON_parse example_platform untagged_body = Inr untagged_value"
  by (simp add: example_platform_def result_body_def error_body_def untagged_body_def)

lemma parse_loose_body: "JSON_parse example_platform loose_body = Inr loose_envelope"
  by (simp add: example_platform_def result_body_def error_body_def untagged_body_def
        loose_body_def)

lemma parse_null_id_body: "JSON_parse example_platform null_id_body = Inr null_id_envelope"
  by (simp add: example_platform_def result_body_def error_body_def untagged_body_def
        loose_body_def null_id_body_def)

lemma parse_not_json: "JSON_parse example_platform ''not json'' = Inl syntax_error_message"
  by (simp add: example_platform_def result_body_def error_body_def untagged_body_def
        loose_body_def null_id_body_def)

lemma decimal_404: "decimal 404 = ''404''"
  by code_simp

lemma is_http_error_network_error:
  "is_http_error (Inl (network_error e)) \<longleftrightarrow> e \<noteq> Nullish"
  by (cases e) (simp_all add: network_error_def message_or_def new_OdooProxyApiHttpError_def)

lemma network_error_Thrown:
  "network_error (Thrown m) =
     OdooProxyApiHttpError
       (''Network error calling Odoo Proxy API: '' @
        (case m of None \<Rightarrow> ''Unknown network error'' | Some s \<Rightarrow> s))
       None None None"
  by (simp add: network_error_def message_or_def new_OdooProxyApiHttpError_def)

lemma handle_response_unexpected:
  "status r \<notin> set expectedStatuses \<Longrightarrow>
   handle_response P r =
     Inl (OdooProxyApiHttpError
            (''Unexpected HTTP response from Odoo Proxy API. '' @ unexpected_status_text r)
            (Some (status r)) (Some (statusText r)) (Some r))"
  by (simp add: handle_response_def new_OdooProxyApiHttpError_def)

lemma handle_response_expected:
  "status r \<in> set expectedStatuses \<Longrightarrow> \<not> is_http_error (handle_response P r)"
  by (simp add: handle_response_def message_or_def split: sum.splits thrown.splits)

lemma unexpected_status_text_eq:
  "unexpected_status_text r =
     ''Status: '' @ decimal (status r) @ '' '' @ statusText r @
     (case text_outcome r of
        Inl e \<Rightarrow> []
      | Inr t \<Rightarrow> if t = [] then []
                else [CHR 0x0A] @ ''Response Body: '' @ take 200 t @
                     (if 200 < length t then ''...'' else []))"
  by (simp add: unexpected_status_text_def split: sum.splits)

lemma handle_response_parse_irrelevant:
  "status r \<notin> set expectedStatuses \<Longrightarrow>
   handle_response (P\<lparr>JSON_parse := parse\<rparr>) r = handle_response P r"
  by (simp add: handle_response_def)

lemma handle_response_unreadable:
  "status r \<in> set expectedStatuses \<Longrightarrow> read_and_parse P r = Inl (Thrown m) \<Longrightarrow>
   handle_response P r =
     Inl (OdooProxyApiFormatError
            (''Failed to parse JSON response from Odoo Proxy API: '' @
             (case m of None \<Rightarrow> ''Unknown parsing error'' | Some s \<Rightarrow> s)))"
  by (simp add: handle_response_def message_or_def)

lemma forwardToOdoo_call_settings:
  "call \<in> set (snd (forwardToOdoo P c request)) \<Longrightarrow>
   call_url call = baseUrl c @ ''/api/odoo'' \<and>
   map_of (call_headers call) ''apikey'' = Some (apiKey c)"
  by (auto simp: forwardToOdoo_def build_call_def split: sum.splits)

lemma forwardToOdoo_read_failure:
  assumes "JSON_stringify P request = Inr body"
      and "fetchFn c (build_call c body) = Inr r"
      and "status r \<in> {200, 400, 401, 500, 502, 504}"
      and "text_outcome r = Inl (Thrown m)"
  shows "fst (forwardToOdoo P c request) =
           Inl (OdooProxyApiFormatError
             (''Failed to parse JSON response from Odoo Proxy API: '' @
              (case m of None \<Rightarrow> ''Unknown parsing error'' | Some s \<Rightarrow> s)))"
proof -
  have "status r \<in> set expectedStatuses"
    using assms(3) by (simp only: mem_expectedStatuses)
  moreover have "read_and_parse P r = Inl (Thrown m)"
    using assms(4) by (simp add: read_and_parse_def)
  ultimately have "handle_response P r =
      Inl (OdooProxyApiFormatError
             (''Failed to parse JSON response from Odoo Proxy API: '' @
              (case m of None \<Rightarrow> ''Unknown parsing error'' | Some s \<Rightarrow> s)))"
    by (rule handle_response_unreadable)
  then show ?thesis
    using assms(1,2) by (simp add: forwardToOdoo_response)
qed

subsection \<open>The dispatch operation on an in-contract response\<close>

text \<open>
  C1. For a response with a status in the expected set whose body parses to an object
  with \<^verbatim>\<open>jsonrpc\<close> equal to \<^verbatim>\<open>"2.0"\<close> and an \<^verbatim>\<open>id\<close> key, \<^verbatim>\<open>forwardToOdoo\<close>
  returns the parsed value itself, whatever its other members are: an \<^verbatim>\<open>error\<close>
  member is returned as data, not thrown. (The empty text is never handed to
  \<^verbatim>\<open>JSON.parse\<close>, which rejects it anyway.)
\<close>

theorem forwardToOdoo_returns_valid_envelope:
  assumes "JSON_stringify P request = Inr body"
      and "fetchFn c (build_call c body) = Inr r"
      and "status r \<in> {200, 400, 401, 500, 502, 504}"
      and "text_outcome r = Inr t" and "t \<noteq> []"
      and "JSON_parse P t = Inr (JObject kvs)"
      and "map_of kvs ''jsonrpc'' = Some (JString ''2.0'')"
      and "''id'' \<in> fst ` set kvs"
  shows "fst (forwardToOdoo P c request) = Inr (JObject kvs)"
proof -
  have "\<not> invalid_format (JObject kvs)"
    using assms(7,8) by (simp add: invalid_format_iff)
  moreover have "status r \<in> set expectedStatuses"
    using assms(3) by (simp only: mem_expectedStatuses)
  ultimately have "handle_response P r = Inr (JObject kvs)"
    using assms(4,5,6) by (simp add: handle_response_parsed)
  then show ?thesis
    using assms(1,2) by (simp add: forwardToOdoo_response)
qed

theorem forwardToOdoo_returns_valid_envelope_witness:
  "fst (forwardToOdoo example_platform
          (example_client (Inr (answer 400 ''Bad Request'' (Inr error_body)))) Plain_request)
     = Inr error_envelope
   \<and> fst (forwardToOdoo example_platform
          (example_client (Inr (answer 200 ''OK'' (Inr result_body)))) Plain_request)
     = Inr result_envelope"
proof -
  let ?r = "answer 400 ''Bad Request'' (Inr error_body)"
  let ?r' = "answer 200 ''OK'' (Inr result_body)"
  have "error_body \<noteq> []" and "result_body \<noteq> []"
    by (simp_all add: error_body_def result_body_def)
  moreover have "JSON_parse example_platform error_body =
      Inr (JObject [(''jsonrpc'', JString ''2.0''), (''id'', JString ''x''),
        (''error'', JObject [(''code'', JNumber (- 32600)), (''message'', JString ''bad'')])])"
    by (simp add: parse_error_body error_envelope_def)
  moreover have "JSON_parse example_platform result_body =
      Inr (JObject [(''jsonrpc'', JString ''2.0''), (''id'', JString ''x''),
        (''result'', JArray [JNumber 1, JNumber 2])])"
    by (simp add: parse_result_body result_envelope_def)
  ultimately show ?thesis
    using forwardToOdoo_returns_valid_envelope
      [of example_platform Plain_request plain_body "example_client (Inr ?r)" ?r error_body]
      forwardToOdoo_returns_valid_envelope
      [of example_platform Plain_request plain_body "example_client (Inr ?r')" ?r' result_body]
    by (simp add: error_envelope_def result_envelope_def)
qed

text \<open>
  C3. For a response with a status in the expected set whose body text is not empty and
  parses as JSON, \<^verbatim>\<open>forwardToOdoo\<close> throws a Format Error exactly when the parsed
  value is not an object whose \<^verbatim>\<open>jsonrpc\<close> member is the string \<^verbatim>\<open>"2.0"\<close> and
  which has an \<^verbatim>\<open>id\<close> key: so for a non-object, for \<^verbatim>\<open>null\<close>, for an array, for
  a missing or different \<^verbatim>\<open>jsonrpc\<close> and for a missing \<^verbatim>\<open>id\<close>. Nothing is asked of
  the value of \<^verbatim>\<open>id\<close> (it may be \<^verbatim>\<open>null\<close>) nor of \<^verbatim>\<open>result\<close> and
  \<^verbatim>\<open>error\<close>. When no Format Error is thrown the parsed value is returned.
\<close>

theorem forwardToOdoo_format_error_iff:
  assumes "JSON_stringify P request = Inr body"
      and "fetchFn c (build_call c body) = Inr r"
      and "status r \<in> {200, 400, 401, 500, 502, 504}"
      and "text_outcome r = Inr t" and "t \<noteq> []"
      and "JSON_parse P t = Inr v"
  shows "(is_format_error (fst (forwardToOdoo P c request)) \<longleftrightarrow>
            \<not> (\<exists>kvs. v = JObject kvs \<and> map_of kvs ''jsonrpc'' = Some (JString ''2.0'') \<and>
                       ''id'' \<in> fst ` set kvs))
       \<and> (\<not> is_format_error (fst (forwardToOdoo P c request)) \<longrightarrow>
            fst (forwardToOdoo P c request) = Inr v)"
proof -
  have "status r \<in> set expectedStatuses"
    using assms(3) by (simp only: mem_expectedStatuses)
  then have "handle_response P r =
     (if invalid_format v
      then Inl (OdooProxyApiFormatError
                  ''Invalid JSON-RPC 2.0 response format received from Odoo Proxy API.'')
      else Inr v)"
    using assms(4,5,6) by (rule handle_response_parsed)
  then have "fst (forwardToOdoo P c request) =
     (if invalid_format v
      then Inl (OdooProxyApiFormatError
                  ''Invalid JSON-RPC 2.0 response format received from Odoo Proxy API.'')
      else Inr v)"
    using assms(1,2) by (simp add: forwardToOdoo_response)
  then show ?thesis
    by (simp add: invalid_format_iff)
qed

theorem forwardToOdoo_format_error_iff_witness:
  "is_format_error (fst (forwardToOdoo example_platform
      (example_client (Inr (answer 200 ''OK'' (Inr untagged_body)))) Plain_request))
   \<and> fst (forwardToOdoo example_platform
      (example_client (Inr (answer 200 ''OK'' (Inr null_id_body)))) Plain_request)
     = Inr null_id_envelope"
proof -
  let ?r = "answer 200 ''OK'' (Inr untagged_body)"
  let ?r' = "answer 200 ''OK'' (Inr null_id_body)"
  have "untagged_body \<noteq> []" and "null_id_body \<noteq> []"
    by (simp_all add: untagged_body_def null_id_body_def)
  then show ?thesis
    using forwardToOdoo_format_error_iff
      [of example_platform Plain_request plain_body "example_client (Inr ?r)" ?r
          untagged_body untagged_value]
      forwardToOdoo_format_error_iff
      [of example_platform Plain_request plain_body "example_client (Inr ?r')" ?r'
          null_id_body null_id_envelope]
    by (simp add: stringify_plain parse_untagged_body parse_null_id_body
          untagged_value_def null_id_envelope_def)
qed

text \<open>
  C4. For a response with a status in the expected set whose body text was read:
  if the text is empty, \<^verbatim>\<open>forwardToOdoo\<close> throws a Format Error whose message ends
  with \<^verbatim>\<open>Received empty response body\<close> (the error thrown inside the \<^verbatim>\<open>try\<close> block
  is caught by the block's own handler and thrown again behind the handler's prefix); if
  the text is not empty and \<^verbatim>\<open>JSON.parse\<close> throws, it throws a Format Error whose
  message ends with the message of the parse failure.
\<close>

theorem forwardToOdoo_empty_or_unparsable_body:
  assumes "JSON_stringify P request = Inr body"
      and "fetchFn c (build_call c body) = Inr r"
      and "status r \<in> {200, 400, 401, 500, 502, 504}"
      and "text_outcome r = Inr t"
  shows "(t = [] \<longrightarrow>
            fst (forwardToOdoo P c request) =
              Inl (OdooProxyApiFormatError
                (''Failed to parse JSON response from Odoo Proxy API: '' @
                 ''Received empty response body'')))
       \<and> (\<forall>m. t \<noteq> [] \<and> JSON_parse P t = Inl m \<longrightarrow>
            fst (forwardToOdoo P c request) =
              Inl (OdooProxyApiFormatError
                (''Failed to parse JSON response from Odoo Proxy API: '' @ m)))"
proof -
  have st: "status r \<in> set expectedStatuses"
    using assms(3) by (simp only: mem_expectedStatuses)
  have out: "fst (forwardToOdoo P c request) = handle_response P r"
    using assms(1,2) by (simp add: forwardToOdoo_response)
  have "t = [] \<Longrightarrow> read_and_parse P r = Inl (Thrown (Some ''Received empty response body''))"
    using assms(4) by (simp add: read_and_parse_def)
  moreover have "t \<noteq> [] \<Longrightarrow> JSON_parse P t = Inl m \<Longrightarrow>
      read_and_parse P r = Inl (Thrown (Some m))" for m
    using assms(4) by (simp add: read_and_parse_def)
  ultimately show ?thesis
    using st out by (simp add: handle_response_unreadable)
qed

theorem forwardToOdoo_empty_or_unparsable_body_witness:
  "fst (forwardToOdoo example_platform
      (example_client (Inr (answer 200 ''OK'' (Inr '''')))) Plain_request)
     = Inl (OdooProxyApiFormatError
         ''Failed to parse JSON response from Odoo Proxy API: Received empty response body'')
   \<and> fst (forwardToOdoo example_platform
      (example_client (Inr (answer 200 ''OK'' (Inr ''not json'')))) Plain_request)
     = Inl (OdooProxyApiFormatError
         (''Failed to parse JSON response from Odoo Proxy API: '' @ syntax_error_message))"
  using forwardToOdoo_empty_or_unparsable_body
      [of example_platform Plain_request plain_body
          "example_client (Inr (answer 200 ''OK'' (Inr '''')))"
          "answer 200 ''OK'' (Inr '''')" "''''"]
    forwardToOdoo_empty_or_unparsable_body
      [of example_platform Plain_request plain_body
          "example_client (Inr (answer 200 ''OK'' (Inr ''not json'')))"
          "answer 200 ''OK'' (Inr ''not json'')" "''not json''"]
  by (simp add: parse_not_json)

text \<open>
  C10. The validation reads the value of \<^verbatim>\<open>jsonrpc\<close> and the presence of \<^verbatim>\<open>id\<close>
  only. For a response with a status in the expected set whose body parses to an object
  with \<^verbatim>\<open>jsonrpc\<close> equal to \<^verbatim>\<open>"2.0"\<close> and an \<^verbatim>\<open>id\<close> member of any value
  \<open>idv\<close> whatever (a number, an array), and any other members (an \<^verbatim>\<open>error\<close> without
  \<^verbatim>\<open>code\<close> and \<^verbatim>\<open>message\<close>), the operation returns the parsed value as the
  envelope.
\<close>

theorem forwardToOdoo_member_types_unchecked:
  assumes "JSON_stringify P request = Inr body"
      and "fetchFn c (build_call c body) = Inr r"
      and "status r \<in> {200, 400, 401, 500, 502, 504}"
      and "text_outcome r = Inr t" and "t \<noteq> []"
      and "JSON_parse P t = Inr (JObject kvs)"
      and "map_of kvs ''jsonrpc'' = Some (JString ''2.0'')"
      and "map_of kvs ''id'' = Some idv"
  shows "\<not> invalid_format (JObject kvs)
       \<and> fst (forwardToOdoo P c request) = Inr (JObject kvs)"
proof -
  have "''id'' \<in> fst ` set kvs"
    using assms(8) by (metis map_of_eq_None_iff option.distinct(1))
  then have valid: "\<not> invalid_format (JObject kvs)"
    using assms(7) by (simp add: invalid_format_iff)
  have "status r \<in> set expectedStatuses"
    using assms(3) by (simp only: mem_expectedStatuses)
  then have "handle_response P r = Inr (JObject kvs)"
    using assms(4,5,6) valid by (simp add: handle_response_parsed)
  then show ?thesis
    using assms(1,2) valid by (simp add: forwardToOdoo_response)
qed

theorem forwardToOdoo_member_types_unchecked_witness:
  "fst (forwardToOdoo example_platform
      (example_client (Inr (answer 200 ''OK'' (Inr loose_body)))) Plain_request)
     = Inr (JObject [(''jsonrpc'', JString ''2.0''), (''id'', JNumber 7),
                     (''error'', JObject [])])"
proof -
  let ?r = "answer 200 ''OK'' (Inr loose_body)"
  have "loose_body \<noteq> []"
    by (simp add: loose_body_def)
  then show ?thesis
    using forwardToOdoo_member_types_unchecked
      [of example_platform Plain_request plain_body "example_client (Inr ?r)" ?r loose_body
          "[(''jsonrpc'', JString ''2.0''), (''id'', JNumber 7), (''error'', JObject [])]"
          "JNumber 7"]
    by (simp add: parse_loose_body loose_envelope_def)
qed

text \<open>
  C9. Reading the body of a response with a status in the expected set fails. When the
  value \<^verbatim>\<open>response.text()\<close> rejects with is \<^verbatim>\<open>undefined\<close> (a body stream errored
  without a reason), the handler's read of \<^verbatim>\<open>parseError.message\<close> throws, and what
  leaves \<^verbatim>\<open>forwardToOdoo\<close> is a TypeError, not a Format Error. (For every other
  rejection value it is a Format Error: \<open>forwardToOdoo_read_failure\<close>.)
\<close>

theorem forwardToOdoo_read_failure_undefined:
  "fst (forwardToOdoo example_platform
      (example_client (Inr (answer 200 ''OK'' (Inl Nullish)))) Plain_request)
     = Inl TypeError"
  by (simp add: forwardToOdoo_def handle_response_def read_and_parse_def message_or_def
        expectedStatuses_def)

subsection \<open>Transport errors and calls of the transport\<close>

text \<open>
  C2, as the code has it. Provided that neither \<^verbatim>\<open>JSON.stringify\<close> nor the transport
  throws \<^verbatim>\<open>null\<close> or \<^verbatim>\<open>undefined\<close>, \<^verbatim>\<open>forwardToOdoo\<close> throws a Transport Error
  exactly when serialising the request throws, or the transport fails before it produces a
  response, or the status of the response is outside the expected set. In the first two
  cases the error carries \<^verbatim>\<open>Network error calling Odoo Proxy API: \<close> followed by the
  failure's message (or \<^verbatim>\<open>Unknown network error\<close>), and no status, status text or
  response. In the third it carries the status, the status text and the response, and a
  message with both and, when the body can be read and is not empty, its first 200
  characters (followed by \<^verbatim>\<open>...\<close> when it is longer); the result does not depend on
  \<^verbatim>\<open>JSON.parse\<close>, which is not called.
\<close>

theorem forwardToOdoo_transport_error:
  assumes "JSON_stringify P request \<noteq> Inl Nullish"
      and "\<forall>b. JSON_stringify P request = Inr b \<longrightarrow> fetchFn c (build_call c b) \<noteq> Inl Nullish"
  shows
    "(is_http_error (fst (forwardToOdoo P c request)) \<longleftrightarrow>
        (\<exists>e. JSON_stringify P request = Inl e) \<or>
        (\<exists>b e. JSON_stringify P request = Inr b \<and> fetchFn c (build_call c b) = Inl e) \<or>
        (\<exists>b r'. JSON_stringify P request = Inr b \<and> fetchFn c (build_call c b) = Inr r' \<and>
                 status r' \<notin> {200, 400, 401, 500, 502, 504}))
     \<and> (JSON_stringify P request = Inl (Thrown m) \<or>
         JSON_stringify P request = Inr body \<and> fetchFn c (build_call c body) = Inl (Thrown m) \<longrightarrow>
         fst (forwardToOdoo P c request) =
           Inl (OdooProxyApiHttpError
                  (''Network error calling Odoo Proxy API: '' @
                   (case m of None \<Rightarrow> ''Unknown network error'' | Some s \<Rightarrow> s))
                  None None None))
     \<and> (JSON_stringify P request = Inr body \<and> fetchFn c (build_call c body) = Inr r \<and>
         status r \<notin> {200, 400, 401, 500, 502, 504} \<longrightarrow>
         fst (forwardToOdoo P c request) =
           Inl (OdooProxyApiHttpError
                  (''Unexpected HTTP response from Odoo Proxy API. Status: '' @
                   decimal (status r) @ '' '' @ statusText r @
                   (case text_outcome r of
                      Inl e \<Rightarrow> []
                    | Inr t \<Rightarrow> if t = [] then []
                              else [CHR 0x0A] @ ''Response Body: '' @ take 200 t @
                                   (if 200 < length t then ''...'' else [])))
                  (Some (status r)) (Some (statusText r)) (Some r))
         \<and> forwardToOdoo (P\<lparr>JSON_parse := parse\<rparr>) c request = forwardToOdoo P c request)"
    (is "?iff \<and> ?pre \<and> ?post")
proof (intro conjI)
  show ?iff
  proof (cases "JSON_stringify P request")
    case (Inl e)
    then have "e \<noteq> Nullish"
      using assms(1) by auto
    then show ?thesis
      using Inl by (simp add: forwardToOdoo_def is_http_error_network_error)
  next
    case (Inr b)
    show ?thesis
    proof (cases "fetchFn c (build_call c b)")
      case (Inl e)
      then have "e \<noteq> Nullish"
        using assms(2) Inr by auto
      then show ?thesis
        using Inl Inr by (simp add: forwardToOdoo_def is_http_error_network_error)
    next
      case r': (Inr r')
      show ?thesis
      proof (cases "status r' \<in> set expectedStatuses")
        case True
        then show ?thesis
          using Inr r' handle_response_expected [of r' P]
          by (simp add: forwardToOdoo_def mem_expectedStatuses)
      next
        case False
        then show ?thesis
          using Inr r' handle_response_unexpected [of r' P]
          by (simp add: forwardToOdoo_def mem_expectedStatuses)
      qed
    qed
  qed
next
  show ?pre
    by (auto simp: forwardToOdoo_def network_error_Thrown)
next
  show ?post
  proof (intro impI, elim conjE)
    assume s: "JSON_stringify P request = Inr body"
      and f: "fetchFn c (build_call c body) = Inr r"
      and "status r \<notin> {200, 400, 401, 500, 502, 504}"
    then have out: "status r \<notin> set expectedStatuses"
      by (simp only: mem_expectedStatuses not_False_eq_True)
    have "fst (forwardToOdoo P c request) = handle_response P r"
      using s f by (simp add: forwardToOdoo_response)
    moreover have "forwardToOdoo (P\<lparr>JSON_parse := parse\<rparr>) c request =
        forwardToOdoo P c request"
      using s f out by (simp add: forwardToOdoo_def handle_response_parse_irrelevant)
    ultimately show "fst (forwardToOdoo P c request) =
           Inl (OdooProxyApiHttpError
                  (''Unexpected HTTP response from Odoo Proxy API. Status: '' @
                   decimal (status r) @ '' '' @ statusText r @
                   (case text_outcome r of
                      Inl e \<Rightarrow> []
                    | Inr t \<Rightarrow> if t = [] then []
                              else [CHR 0x0A] @ ''Response Body: '' @ take 200 t @
                                   (if 200 < length t then ''...'' else [])))
                  (Some (status r)) (Some (statusText r)) (Some r))
         \<and> forwardToOdoo (P\<lparr>JSON_parse := parse\<rparr>) c request = forwardToOdoo P c request"
      using out by (simp add: handle_response_unexpected unexpected_status_text_eq)
  qed
qed

theorem forwardToOdoo_transport_error_witness:
  "fst (forwardToOdoo example_platform
      (example_client (Inr (answer 404 ''Not Found'' (Inr ''gone'')))) Plain_request)
     = Inl (OdooProxyApiHttpError
         (''Unexpected HTTP response from Odoo Proxy API. Status: 404 Not Found'' @
          [CHR 0x0A] @ ''Response Body: gone'')
         (Some 404) (Some ''Not Found'') (Some (answer 404 ''Not Found'' (Inr ''gone''))))
   \<and> fst (forwardToOdoo example_platform
      (example_client (Inl (Thrown (Some ''Failed to fetch'')))) Plain_request)
     = Inl (OdooProxyApiHttpError
         ''Network error calling Odoo Proxy API: Failed to fetch'' None None None)
   \<and> \<not> is_http_error (fst (forwardToOdoo example_platform
      (example_client (Inr (answer 200 ''OK'' (Inr [])))) Plain_request))"
  using forwardToOdoo_transport_error
      [of example_platform Plain_request
          "example_client (Inr (answer 404 ''Not Found'' (Inr ''gone'')))"
          None plain_body "answer 404 ''Not Found'' (Inr ''gone'')"]
    forwardToOdoo_transport_error
      [of example_platform Plain_request
          "example_client (Inl (Thrown (Some ''Failed to fetch'')))"
          "Some ''Failed to fetch''" plain_body]
    forwardToOdoo_transport_error
      [of example_platform Plain_request
          "example_client (Inr (answer 200 ''OK'' (Inr [])))"]
  by (simp add: decimal_404)

text \<open>
  C2 as stated fails: on a request that \<^verbatim>\<open>JSON.stringify\<close> rejects, a Transport Error
  is thrown although the transport was never called, so it neither failed nor answered.
\<close>

theorem forwardToOdoo_transport_error_without_transport:
  "fst (forwardToOdoo example_platform
      (example_client (Inr (answer 200 ''OK'' (Inr result_body)))) Bigint_request)
     = Inl (OdooProxyApiHttpError
         ''Network error calling Odoo Proxy API: Do not know how to serialize a BigInt''
         None None None)
   \<and> snd (forwardToOdoo example_platform
      (example_client (Inr (answer 200 ''OK'' (Inr result_body)))) Bigint_request) = []"
  by (simp add: forwardToOdoo_def stringify_bigint network_error_Thrown)

text \<open>
  C5, as the code has it. \<^verbatim>\<open>forwardToOdoo\<close> calls the transport at most once. When
  serialising the request succeeds it calls it exactly once, whatever the transport then
  answers, with the URL \<^verbatim>\<open>baseUrl + "/api/odoo"\<close>, the method POST, the three headers
  and the serialisation as the body; when serialising throws it does not call it.
\<close>

theorem forwardToOdoo_transport_calls:
  "(JSON_stringify P request = Inr body \<longrightarrow>
      snd (forwardToOdoo P c request) =
        [\<lparr> call_url = baseUrl c @ ''/api/odoo'',
            call_method = ''POST'',
            call_headers = [(''Content-Type'', ''application/json''),
                            (''Accept'', ''application/json''),
                            (''apikey'', apiKey c)],
            call_body = body \<rparr>])
   \<and> (JSON_stringify P request = Inl e \<longrightarrow> snd (forwardToOdoo P c request) = [])
   \<and> length (snd (forwardToOdoo P c request)) \<le> 1"
  by (auto simp: forwardToOdoo_def build_call_def split: sum.splits)

theorem forwardToOdoo_transport_calls_witness:
  "snd (forwardToOdoo example_platform
      (example_client (Inr (answer 200 ''OK'' (Inr result_body)))) Plain_request)
     = [\<lparr> call_url = ''http://h/api/odoo'',
           call_method = ''POST'',
           call_headers = [(''Content-Type'', ''application/json''),
                           (''Accept'', ''application/json''),
                           (''apikey'', ''secret'')],
           call_body = plain_body \<rparr>]"
  using forwardToOdoo_transport_calls
      [of example_platform Plain_request plain_body
          "example_client (Inr (answer 200 ''OK'' (Inr result_body)))"]
  by (simp add: example_client_def)

text \<open>
  C5 as stated fails: an invocation with a request that \<^verbatim>\<open>JSON.stringify\<close> rejects
  makes no call of the transport.
\<close>

theorem forwardToOdoo_no_transport_call:
  "snd (forwardToOdoo example_platform
      (example_client (Inr (answer 200 ''OK'' (Inr result_body)))) Bigint_request) = []"
  by (simp add: forwardToOdoo_def stringify_bigint)

subsection \<open>Construction\<close>

text \<open>
  C6. The constructor and the factory throw for every configuration whose
  \<^verbatim>\<open>baseUrl\<close> or \<^verbatim>\<open>apiKey\<close> is missing or empty, and for every configuration
  without a \<^verbatim>\<open>fetch\<close> when the environment has none either.
\<close>

theorem construction_fails:
  assumes "cfg_baseUrl config = None \<or> cfg_baseUrl config = Some [] \<or>
           cfg_apiKey config = None \<or> cfg_apiKey config = Some [] \<or>
           cfg_fetch config = None \<and> globalThis_fetch = None"
  shows "isl (new_OdooProxyApiClient globalThis_fetch config)
       \<and> isl (createOdooProxyClient globalThis_fetch config)"
  using assms
  by (auto simp: createOdooProxyClient_def new_OdooProxyApiClient_def falsy_def
        split: option.splits)

theorem construction_fails_witness:
  "isl (createOdooProxyClient None (example_config (Some '''') (Some ''secret'')))
   \<and> isl (createOdooProxyClient None (example_config (Some ''http://h'') None))
   \<and> isl (createOdooProxyClient None
        ((example_config (Some ''http://h'') (Some ''secret''))\<lparr>cfg_fetch := None\<rparr>))"
  using construction_fails [of "example_config (Some '''') (Some ''secret'')" None]
    construction_fails [of "example_config (Some ''http://h'') None" None]
    construction_fails
      [of "(example_config (Some ''http://h'') (Some ''secret''))\<lparr>cfg_fetch := None\<rparr>" None]
  by (simp add: example_config_def)

text \<open>
  C7. For a configuration with a non-empty \<^verbatim>\<open>baseUrl\<close> and \<^verbatim>\<open>apiKey\<close> and a
  transport \<open>f\<close> (its own, or else the environment's), construction succeeds; the
  stored root is the configured one without its final slash when it ends with one (one
  slash only is removed: \<open>b'\<close> is arbitrary), and the configured one otherwise.
\<close>

theorem construction_normalises:
  assumes "cfg_baseUrl config = Some b" and "b \<noteq> []"
      and "cfg_apiKey config = Some k" and "k \<noteq> []"
      and "cfg_fetch config = Some f \<or> cfg_fetch config = None \<and> globalThis_fetch = Some f"
  shows "createOdooProxyClient globalThis_fetch config = new_OdooProxyApiClient globalThis_fetch config
       \<and> (b = b' @ ''/'' \<longrightarrow>
            new_OdooProxyApiClient globalThis_fetch config =
              Inr \<lparr> baseUrl = b', apiKey = k, fetchFn = f \<rparr>)
       \<and> (last b \<noteq> CHR ''/'' \<longrightarrow>
            new_OdooProxyApiClient globalThis_fetch config =
              Inr \<lparr> baseUrl = b, apiKey = k, fetchFn = f \<rparr>)"
  using assms
  by (auto simp: createOdooProxyClient_def new_OdooProxyApiClient_def falsy_def
        replace_trailing_slash_def)

theorem construction_normalises_witness:
  "createOdooProxyClient None (example_config (Some ''http://h/'') (Some ''secret''))
     = Inr \<lparr> baseUrl = ''http://h'', apiKey = ''secret'', fetchFn = refusing_transport \<rparr>
   \<and> createOdooProxyClient None (example_config (Some ''http://h'') (Some ''secret''))
     = Inr \<lparr> baseUrl = ''http://h'', apiKey = ''secret'', fetchFn = refusing_transport \<rparr>"
  using construction_normalises
      [of "example_config (Some ''http://h/'') (Some ''secret'')" "''http://h/''" "''secret''"
          refusing_transport None "''http://h''"]
    construction_normalises
      [of "example_config (Some ''http://h'') (Some ''secret'')" "''http://h''" "''secret''"
          refusing_transport None]
  by (simp add: example_config_def)

text \<open>
  C8 as stated fails: the configured root \<^verbatim>\<open>"/"\<close> is stored as the empty string, and
  a configured root ending with two slashes is stored ending with one.
\<close>

theorem stored_root_empty_or_slashed:
  "createOdooProxyClient None (example_config (Some ''/'') (Some ''secret''))
     = Inr \<lparr> baseUrl = '''', apiKey = ''secret'', fetchFn = refusing_transport \<rparr>
   \<and> createOdooProxyClient None (example_config (Some ''http://h//'') (Some ''secret''))
     = Inr \<lparr> baseUrl = ''http://h/'', apiKey = ''secret'', fetchFn = refusing_transport \<rparr>"
  by (simp add: createOdooProxyClient_def new_OdooProxyApiClient_def falsy_def
        replace_trailing_slash_def example_config_def)

text \<open>
  C8, as the code has it. After a successful construction the stored root is the
  configured root, which is not empty, without its final slash if it ends with one, and
  unchanged otherwise; the stored credential is the configured one and is not empty; and in
  any sequence of dispatches every call of the transport goes to the stored root followed
  by \<^verbatim>\<open>/api/odoo\<close> with the stored credential as its \<^verbatim>\<open>apikey\<close> header.
\<close>

theorem stored_settings:
  assumes "createOdooProxyClient globalThis_fetch config = Inr c"
  shows "\<exists>b. cfg_baseUrl config = Some b \<and> b \<noteq> [] \<and>
             (last b = CHR ''/'' \<longrightarrow> b = baseUrl c @ ''/'') \<and>
             (last b \<noteq> CHR ''/'' \<longrightarrow> baseUrl c = b) \<and>
             cfg_apiKey config = Some (apiKey c) \<and> apiKey c \<noteq> [] \<and>
             (\<forall>res \<in> set (dispatch_all P c requests). \<forall>call \<in> set (snd res).
                call_url call = baseUrl c @ ''/api/odoo'' \<and>
                map_of (call_headers call) ''apikey'' = Some (apiKey c))"
proof -
  from assms obtain b k where b: "cfg_baseUrl config = Some b" "b \<noteq> []"
    and k: "cfg_apiKey config = Some k" "k \<noteq> []"
    and c: "baseUrl c = replace_trailing_slash b" "apiKey c = k"
    by (auto simp: createOdooProxyClient_def new_OdooProxyApiClient_def falsy_def
          split: if_splits option.splits)
  have "last b = CHR ''/'' \<longrightarrow> b = baseUrl c @ ''/''"
    using b(2) c(1) by (auto simp: replace_trailing_slash_def) (metis append_butlast_last_id)
  moreover have "last b \<noteq> CHR ''/'' \<longrightarrow> baseUrl c = b"
    using c(1) by (simp add: replace_trailing_slash_def)
  moreover have "\<forall>res \<in> set (dispatch_all P c requests). \<forall>call \<in> set (snd res).
                call_url call = baseUrl c @ ''/api/odoo'' \<and>
                map_of (call_headers call) ''apikey'' = Some (apiKey c)"
    by (auto simp: dispatch_all_def dest: forwardToOdoo_call_settings)
  ultimately show ?thesis
    using b k c(2) by simp
qed

theorem stored_settings_witness:
  "cfg_baseUrl (example_config (Some ''http://h/'') (Some ''secret'')) = Some ''http://h/''
   \<and> cfg_apiKey (example_config (Some ''http://h/'') (Some ''secret'')) = Some ''secret''
   \<and> list_all (\<lambda>res. list_all (\<lambda>call. call_url call = ''http://h/api/odoo'' \<and>
         map_of (call_headers call) ''apikey'' = Some ''secret'') (snd res))
       (dispatch_all example_platform
          \<lparr> baseUrl = ''http://h'', apiKey = ''secret'', fetchFn = refusing_transport \<rparr>
          [Plain_request, Bigint_request, Plain_request])"
proof -
  let ?config = "example_config (Some ''http://h/'') (Some ''secret'')"
  let ?c = "\<lparr> baseUrl = ''http://h'', apiKey = ''secret'', fetchFn = refusing_transport \<rparr>"
  have "createOdooProxyClient None ?config = Inr ?c"
    by (simp add: createOdooProxyClient_def new_OdooProxyApiClient_def falsy_def
          replace_trailing_slash_def example_config_def)
  from stored_settings [OF this, of example_platform
      "[Plain_request, Bigint_request, Plain_request]"]
  show ?thesis
    by (simp add: list_all_iff example_config_def)
qed

end
